theory Spec2Isabelle
  imports Complex_Main
begin

section \<open>Python values\<close>

text \<open>
  The server in \<^verbatim>\<open>scripts/lancedb-server.py\<close> moves Python values between
  the HTTP layer and the storage engine. The values the code tells apart by
  \<^verbatim>\<open>isinstance\<close> are the constructors below. A float is never computed
  with, only passed on, so its carrier is the type parameter \<open>'f\<close>.
  A \<^verbatim>\<open>str\<close> is kept as its UTF-8 text; a \<^verbatim>\<open>dict\<close> is an association
  list in insertion order. A numpy integer or float scalar is held as the
  number \<^verbatim>\<open>int()\<close> or \<^verbatim>\<open>float()\<close> gives for it. \<^verbatim>\<open>np.timedelta64\<close>
  is a subclass of \<^verbatim>\<open>np.integer\<close> as well; it is held as its count and its
  unit, the count being in the range of \<^verbatim>\<open>datetime.timedelta\<close>.
\<close>

type_synonym exn = string
  \<comment> \<open>a raised Python exception: its text \<^verbatim>\<open>str(e)\<close> where the code reads it,
      the name of its class otherwise\<close>

datatype 'f ndarray =
    NdInt int
  | NdFloat 'f
  | NdBool bool
  | NdAxis "'f ndarray list"

datatype 'f pyval =
    PyNone
  | PyBool bool
  | PyInt int
  | PyFloat 'f
  | PyStr string
  | PyBytes "char list"
  | PyList "'f pyval list"
  | PyTuple "'f pyval list"
  | PyDict "(string \<times> 'f pyval) list"
  | NpInteger int
  | NpTimedelta64 int string
  | NpFloating 'f
  | NpBool bool
  | NpNdarray "'f ndarray"
  | PaArray "'f pyval list"
  | PaChunkedArray "'f pyval list list"
  | PyObject nat

subsection \<open>The UTF-8 codec of \<^verbatim>\<open>bytes.decode\<close>\<close>

datatype errors = Strict | Replace

definition byte :: "char \<Rightarrow> nat" where
  "byte c = of_char c"

definition is_continuation :: "char \<Rightarrow> bool" where
  "is_continuation c = (0x80 \<le> byte c \<and> byte c \<le> 0xBF)"

definition second_ok :: "char \<Rightarrow> char \<Rightarrow> bool" where
  "second_ok b0 b1 =
     (if byte b0 = 0xE0 then 0xA0 \<le> byte b1 \<and> byte b1 \<le> 0xBF
      else if byte b0 = 0xED then 0x80 \<le> byte b1 \<and> byte b1 \<le> 0x9F
      else if byte b0 = 0xF0 then 0x90 \<le> byte b1 \<and> byte b1 \<le> 0xBF
      else if byte b0 = 0xF4 then 0x80 \<le> byte b1 \<and> byte b1 \<le> 0x8F
      else is_continuation b1)"

definition sequence_length :: "char \<Rightarrow> nat" where
  "sequence_length b0 =
     (if byte b0 < 0x80 then 1
      else if 0xC2 \<le> byte b0 \<and> byte b0 \<le> 0xDF then 2
      else if 0xE0 \<le> byte b0 \<and> byte b0 \<le> 0xEF then 3
      else if 0xF0 \<le> byte b0 \<and> byte b0 \<le> 0xF4 then 4
      else 0)"

fun scan_tail :: "char \<Rightarrow> nat \<Rightarrow> bool \<Rightarrow> char list \<Rightarrow> bool \<times> nat" where
  "scan_tail b0 0 first bs = (True, 0)"
| "scan_tail b0 (Suc n) first [] = (False, 0)"
| "scan_tail b0 (Suc n) first (b # bs) =
     (if (if first then second_ok b0 b else is_continuation b)
      then (case scan_tail b0 n False bs of (ok, k) \<Rightarrow> (ok, Suc k))
      else (False, 0))"

definition scan :: "char \<Rightarrow> char list \<Rightarrow> bool \<times> nat" where
  "scan b0 bs =
     (if sequence_length b0 = 0 then (False, 0)
      else scan_tail b0 (sequence_length b0 - 1) True bs)"

definition replacement_character :: string where
  "replacement_character = [CHR 0xEF, CHR 0xBF, CHR 0xBD]"

fun decode_utf8 :: "errors \<Rightarrow> char list \<Rightarrow> exn + string" where
  "decode_utf8 errs [] = Inr []"
| "decode_utf8 errs (b0 # bs) =
     (case scan b0 bs of
        (True, k) \<Rightarrow>
          (case decode_utf8 errs (drop k bs) of
             Inl e \<Rightarrow> Inl e
           | Inr s \<Rightarrow> Inr (b0 # take k bs @ s))
      | (False, k) \<Rightarrow>
          (case errs of
             Strict \<Rightarrow> Inl ''UnicodeDecodeError''
           | Replace \<Rightarrow>
               (case decode_utf8 errs (drop k bs) of
                  Inl e \<Rightarrow> Inl e
                | Inr s \<Rightarrow> Inr (replacement_character @ s))))"

subsection \<open>Exceptions inside comprehensions\<close>

text \<open>
  A list or dict comprehension evaluates its elements in order; the first
  element that raises ends it with that exception.
\<close>

fun collect :: "(exn + 'a) list \<Rightarrow> exn + 'a list" where
  "collect [] = Inr []"
| "collect (Inl e # rs) = Inl e"
| "collect (Inr x # rs) =
     (case collect rs of Inl e \<Rightarrow> Inl e | Inr xs \<Rightarrow> Inr (x # xs))"

section \<open>The value normalizer and the row materializer\<close>

text \<open>
  \<^verbatim>\<open>int(value)\<close> for an \<^verbatim>\<open>np.timedelta64\<close>: numpy turns a count of weeks,
  days, hours, minutes, seconds, milliseconds or microseconds into a
  \<^verbatim>\<open>datetime.timedelta\<close>, which \<^verbatim>\<open>int\<close> refuses with \<^verbatim>\<open>TypeError\<close>; with
  any other unit the count itself is the integer.
\<close>

definition timedelta_units :: "string list" where
  "timedelta_units = [''W'', ''D'', ''h'', ''m'', ''s'', ''ms'', ''us'']"

definition int_of_timedelta64 :: "int \<Rightarrow> string \<Rightarrow> exn + int" where
  "int_of_timedelta64 n u = (if u \<in> set timedelta_units then Inl ''TypeError'' else Inr n)"

text \<open>
  \<^verbatim>\<open>ndarray.tolist()\<close>: the array as nested lists of plain Python scalars; an
  array of no dimension gives the scalar itself.
\<close>

fun tolist :: "'f ndarray \<Rightarrow> 'f pyval" where
  "tolist (NdInt i) = PyInt i"
| "tolist (NdFloat x) = PyFloat x"
| "tolist (NdBool b) = PyBool b"
| "tolist (NdAxis xs) = PyList (map tolist xs)"

text \<open>
  \<^verbatim>\<open>_to_serializable\<close>, branch by branch in the order of the source. The
  elements of a pyarrow array are held as the Python objects \<^verbatim>\<open>to_pylist\<close>
  gives; the source does not normalize them further. \<^verbatim>\<open>tolist\<close> and
  \<^verbatim>\<open>to_pylist\<close> build lists and are taken not to raise; \<^verbatim>\<open>int\<close> and
  \<^verbatim>\<open>bytes.decode\<close> are the calls that can, and their exception leaves the
  function, also from inside a list or a dict.
\<close>

fun to_serializable :: "'f pyval \<Rightarrow> exn + 'f pyval" where
  "to_serializable (NpInteger i) = Inr (PyInt i)"
| "to_serializable (NpTimedelta64 n u) =
     (case int_of_timedelta64 n u of Inl e \<Rightarrow> Inl e | Inr i \<Rightarrow> Inr (PyInt i))"
| "to_serializable (NpFloating x) = Inr (PyFloat x)"
| "to_serializable (NpNdarray a) = Inr (tolist a)"
| "to_serializable (NpBool b) = Inr (PyBool b)"
| "to_serializable (PyBytes bs) =
     (case decode_utf8 Replace bs of Inl e \<Rightarrow> Inl e | Inr s \<Rightarrow> Inr (PyStr s))"
| "to_serializable (PaArray xs) = Inr (PyList xs)"
| "to_serializable (PaChunkedArray cs) = Inr (PyList (concat cs))"
| "to_serializable (PyList vs) =
     (case collect (map to_serializable vs) of
        Inl e \<Rightarrow> Inl e
      | Inr rs \<Rightarrow> Inr (PyList rs))"
| "to_serializable (PyDict kvs) =
     (case collect (map (\<lambda>(k, v). case to_serializable v of
                                      Inl e \<Rightarrow> Inl e
                                    | Inr r \<Rightarrow> Inr (k, r)) kvs) of
        Inl e \<Rightarrow> Inl e
      | Inr rs \<Rightarrow> Inr (PyDict rs))"
| "to_serializable v = Inr v"

text \<open>
  What the engine hands back from a query, by the shape \<^verbatim>\<open>_rows_to_dicts\<close>
  dispatches on: an object with \<^verbatim>\<open>to_pandas\<close> (held as the records of its
  data frame), an object with only \<^verbatim>\<open>to_pydict\<close> (its columns), a list of
  rows, or another iterable of rows.
\<close>

datatype 'f table_result =
    WithToPandas "'f pyval list"
  | WithToPydict "(string \<times> 'f pyval list) list"
  | RowList "'f pyval list"
  | RowIterable "'f pyval list"

definition pydict_row :: "(string \<times> 'f pyval list) list \<Rightarrow> nat \<Rightarrow> exn + 'f pyval" where
  "pydict_row pydict i =
     (case collect (map (\<lambda>(k, col). if i < length col then Inr (k, col ! i)
                                      else Inl ''list index out of range'') pydict) of
        Inl e \<Rightarrow> Inl e
      | Inr kvs \<Rightarrow> Inr (PyDict kvs))"

fun raw_rows :: "'f table_result \<Rightarrow> exn + 'f pyval list" where
  "raw_rows (WithToPandas records) = Inr records"
| "raw_rows (WithToPydict pydict) =
     (let count = (case pydict of [] \<Rightarrow> 0 | (k, col) # _ \<Rightarrow> length col)
      in collect (map (pydict_row pydict) [0..<count]))"
| "raw_rows (RowList rows) = Inr rows"
| "raw_rows (RowIterable rows) = Inr rows"

definition rows_to_dicts :: "'f table_result \<Rightarrow> exn + 'f pyval list" where
  "rows_to_dicts table_result =
     (case raw_rows table_result of
        Inl e \<Rightarrow> Inl e
      | Inr rows \<Rightarrow> collect (map to_serializable rows))"

section \<open>The storage engine\<close>

text \<open>
  The engine (the \<^verbatim>\<open>lancedb\<close> library) is not part of the repository: it is
  a parameter of the model. An engine has a state of some type \<open>'s\<close> and
  answers each call with a value or an exception; the calls that write also
  give the next state. A table handle is the name the table was opened under.
  A query is built by \<^verbatim>\<open>search\<close>, \<^verbatim>\<open>metric\<close>, \<^verbatim>\<open>where\<close> and
  \<^verbatim>\<open>limit\<close>, which record their arguments, and reaches the engine when
  \<^verbatim>\<open>to_arrow\<close> runs it.
\<close>

type_synonym 'f document = "(string \<times> 'f pyval) list"

type_synonym table = string

record 'f query =
  q_vector :: "'f list option"
  q_vector_column_name :: "string option"
  q_metric :: "string option"
  q_where :: "string option"
  q_limit :: "int option"

definition table_search :: "'f list option \<Rightarrow> string option \<Rightarrow> 'f query" where
  "table_search v col =
     \<lparr>q_vector = v, q_vector_column_name = col, q_metric = None,
      q_where = None, q_limit = None\<rparr>"

definition query_metric :: "string \<Rightarrow> 'f query \<Rightarrow> 'f query" where
  "query_metric m q = q\<lparr>q_metric := Some m\<rparr>"

definition query_where :: "string \<Rightarrow> 'f query \<Rightarrow> 'f query" where
  "query_where f q = q\<lparr>q_where := Some f\<rparr>"

definition query_limit :: "int \<Rightarrow> 'f query \<Rightarrow> 'f query" where
  "query_limit n q = q\<lparr>q_limit := Some n\<rparr>"

record ('s, 'f) engine =
  e_table_names :: "'s \<Rightarrow> exn + string list"
  e_open_table :: "string \<Rightarrow> 's \<Rightarrow> exn + unit"
  e_create_table :: "string \<Rightarrow> 'f document list \<Rightarrow> 's \<Rightarrow> (exn + unit) \<times> 's"
  e_drop_table :: "string \<Rightarrow> 's \<Rightarrow> (exn + unit) \<times> 's"
  e_count_rows :: "table \<Rightarrow> 's \<Rightarrow> exn + int"
  e_to_pandas :: "table \<Rightarrow> 's \<Rightarrow> exn + 'f document list"
  e_add :: "table \<Rightarrow> 'f document list \<Rightarrow> 's \<Rightarrow> (exn + unit) \<times> 's"
  e_delete :: "table \<Rightarrow> string \<Rightarrow> 's \<Rightarrow> (exn + unit) \<times> 's"
  e_to_arrow :: "table \<Rightarrow> 'f query \<Rightarrow> 's \<Rightarrow> exn + 'f table_result"

text \<open>
  The server's view of the engine: the engine's state (the global \<^verbatim>\<open>db\<close>)
  and the calls issued to it so far, oldest first.
\<close>

datatype 'f call =
    TableNames
  | OpenTable string
  | CreateTable string "'f document list"
  | DropTable string
  | CountRows table
  | ToPandas table
  | Add table "'f document list"
  | Delete table string
  | ToArrow table "'f query"

record ('s, 'f) world =
  st :: 's
  calls :: "'f call list"

definition db_table_names ::
  "('s, 'f) engine \<Rightarrow> ('s, 'f) world \<Rightarrow> (exn + string list) \<times> ('s, 'f) world" where
  "db_table_names eng w = (e_table_names eng (st w), w\<lparr>calls := calls w @ [TableNames]\<rparr>)"

definition db_open_table ::
  "('s, 'f) engine \<Rightarrow> string \<Rightarrow> ('s, 'f) world \<Rightarrow> (exn + unit) \<times> ('s, 'f) world" where
  "db_open_table eng name w =
     (e_open_table eng name (st w), w\<lparr>calls := calls w @ [OpenTable name]\<rparr>)"

definition db_create_table ::
  "('s, 'f) engine \<Rightarrow> string \<Rightarrow> 'f document list \<Rightarrow> ('s, 'f) world
     \<Rightarrow> (exn + unit) \<times> ('s, 'f) world" where
  "db_create_table eng name docs w =
     (case e_create_table eng name docs (st w) of
        (r, s') \<Rightarrow> (r, \<lparr>st = s', calls = calls w @ [CreateTable name docs]\<rparr>))"

definition db_drop_table ::
  "('s, 'f) engine \<Rightarrow> string \<Rightarrow> ('s, 'f) world \<Rightarrow> (exn + unit) \<times> ('s, 'f) world" where
  "db_drop_table eng name w =
     (case e_drop_table eng name (st w) of
        (r, s') \<Rightarrow> (r, \<lparr>st = s', calls = calls w @ [DropTable name]\<rparr>))"

definition table_count_rows ::
  "('s, 'f) engine \<Rightarrow> table \<Rightarrow> ('s, 'f) world \<Rightarrow> (exn + int) \<times> ('s, 'f) world" where
  "table_count_rows eng t w =
     (e_count_rows eng t (st w), w\<lparr>calls := calls w @ [CountRows t]\<rparr>)"

definition table_to_pandas ::
  "('s, 'f) engine \<Rightarrow> table \<Rightarrow> ('s, 'f) world
     \<Rightarrow> (exn + 'f document list) \<times> ('s, 'f) world" where
  "table_to_pandas eng t w =
     (e_to_pandas eng t (st w), w\<lparr>calls := calls w @ [ToPandas t]\<rparr>)"

definition table_add ::
  "('s, 'f) engine \<Rightarrow> table \<Rightarrow> 'f document list \<Rightarrow> ('s, 'f) world
     \<Rightarrow> (exn + unit) \<times> ('s, 'f) world" where
  "table_add eng t docs w =
     (case e_add eng t docs (st w) of
        (r, s') \<Rightarrow> (r, \<lparr>st = s', calls = calls w @ [Add t docs]\<rparr>))"

definition table_delete ::
  "('s, 'f) engine \<Rightarrow> table \<Rightarrow> string \<Rightarrow> ('s, 'f) world
     \<Rightarrow> (exn + unit) \<times> ('s, 'f) world" where
  "table_delete eng t flt w =
     (case e_delete eng t flt (st w) of
        (r, s') \<Rightarrow> (r, \<lparr>st = s', calls = calls w @ [Delete t flt]\<rparr>))"

definition query_to_arrow ::
  "('s, 'f) engine \<Rightarrow> table \<Rightarrow> 'f query \<Rightarrow> ('s, 'f) world
     \<Rightarrow> (exn + 'f table_result) \<times> ('s, 'f) world" where
  "query_to_arrow eng t q w =
     (e_to_arrow eng t q (st w), w\<lparr>calls := calls w @ [ToArrow t q]\<rparr>)"

section \<open>Requests and responses\<close>

text \<open>
  A handler ends by returning a JSON value, by raising \<^verbatim>\<open>HTTPException\<close>
  with a status code and a detail, or by letting an exception escape, which
  FastAPI answers with status 500. A request whose body does not fit the
  handler's pydantic model is refused before the handler runs; FastAPI answers
  it with status 422.
\<close>

datatype failure =
    HTTPException nat string
  | RequestValidationError
  | Unhandled exn

fun status_code :: "failure \<Rightarrow> nat" where
  "status_code (HTTPException code detail) = code"
| "status_code RequestValidationError = 422"
| "status_code (Unhandled e) = 500"

text \<open>
  The pydantic models. The fields are named \<^verbatim>\<open>data\<close>, \<^verbatim>\<open>filter\<close>,
  \<^verbatim>\<open>vector\<close>, \<^verbatim>\<open>limit\<close> and \<^verbatim>\<open>distance_type\<close> in the source; here each
  carries a prefix for its model.
\<close>

record 'f TableCreateRequest =
  tc_data :: "'f document list"

record 'f AddDocumentsRequest =
  ad_data :: "'f document list"

record DeleteRequest =
  dr_filter :: string

record 'f SearchRequest =
  sr_vector :: "'f list"
  sr_limit :: int
  sr_distance_type :: string
  sr_filter :: "string option"

record QueryRequest =
  qr_filter :: "string option"
  qr_limit :: int

text \<open>
  A body as it arrives: each field is present or not. Validation fills in the
  default a model declares and refuses a body that lacks a field without one.
  A field that is present has the type its model declares.
\<close>

record DeleteBody =
  db_filter :: "string option"

record 'f SearchBody =
  sb_vector :: "'f list option"
  sb_limit :: "int option"
  sb_distance_type :: "string option"
  sb_filter :: "string option"

record QueryBody =
  qb_filter :: "string option"
  qb_limit :: "int option"

definition validate_DeleteRequest :: "DeleteBody \<Rightarrow> failure + DeleteRequest" where
  "validate_DeleteRequest b =
     (case db_filter b of
        None \<Rightarrow> Inl RequestValidationError
      | Some f \<Rightarrow> Inr \<lparr>dr_filter = f\<rparr>)"

definition validate_SearchRequest :: "'f SearchBody \<Rightarrow> failure + 'f SearchRequest" where
  "validate_SearchRequest b =
     (case sb_vector b of
        None \<Rightarrow> Inl RequestValidationError
      | Some v \<Rightarrow>
          Inr \<lparr>sr_vector = v,
               sr_limit = (case sb_limit b of None \<Rightarrow> 10 | Some n \<Rightarrow> n),
               sr_distance_type = (case sb_distance_type b of None \<Rightarrow> ''cosine'' | Some d \<Rightarrow> d),
               sr_filter = sb_filter b\<rparr>)"

definition validate_QueryRequest :: "QueryBody \<Rightarrow> failure + QueryRequest" where
  "validate_QueryRequest b =
     Inr \<lparr>qr_filter = qb_filter b,
          qr_limit = (case qb_limit b of None \<Rightarrow> 100 | Some n \<Rightarrow> n)\<rparr>"

subsection \<open>Text helpers\<close>

text \<open>
  \<^verbatim>\<open>f"'{name}'"\<close>, \<^verbatim>\<open>str.lower\<close> and the test \<^verbatim>\<open>sub in s\<close>.
  Lowering maps the letters A to Z and leaves every other character as it is,
  which is all the search for \<^verbatim>\<open>already exists\<close> depends on.
\<close>

definition quoted :: "string \<Rightarrow> string" where
  "quoted name = [CHR 0x27] @ name @ [CHR 0x27]"

definition lower_char :: "char \<Rightarrow> char" where
  "lower_char c = (if 0x41 \<le> byte c \<and> byte c \<le> 0x5A then char_of (byte c + 32) else c)"

definition str_lower :: "string \<Rightarrow> string" where
  "str_lower s = map lower_char s"

fun str_contains :: "string \<Rightarrow> string \<Rightarrow> bool" where
  "str_contains sub [] = (sub = [])"
| "str_contains sub (c # cs) = (take (length sub) (c # cs) = sub \<or> str_contains sub cs)"

section \<open>The handlers\<close>

definition get_table ::
  "('s, 'f) engine \<Rightarrow> string \<Rightarrow> ('s, 'f) world \<Rightarrow> (failure + table) \<times> ('s, 'f) world" where
  "get_table eng name w =
     (case db_open_table eng name w of
        (Inl e, w1) \<Rightarrow> (Inl (HTTPException 404 (''Table '' @ quoted name @ '' not found'')), w1)
      | (Inr u, w1) \<Rightarrow> (Inr name, w1))"

text \<open>
  The block \<^verbatim>\<open>try: count = table.count_rows()
  except Exception: count = len(table.to_pandas())\<close>, which three handlers share.
\<close>

definition row_count ::
  "('s, 'f) engine \<Rightarrow> table \<Rightarrow> ('s, 'f) world \<Rightarrow> (exn + int) \<times> ('s, 'f) world" where
  "row_count eng t w =
     (case table_count_rows eng t w of
        (Inr c, w1) \<Rightarrow> (Inr c, w1)
      | (Inl e, w1) \<Rightarrow>
          (case table_to_pandas eng t w1 of
             (Inl e', w2) \<Rightarrow> (Inl e', w2)
           | (Inr frame, w2) \<Rightarrow> (Inr (int (length frame)), w2)))"

definition health :: "'f pyval" where
  "health = PyDict [(''database'', PyStr ''LanceDB''), (''status'', PyStr ''running'')]"

definition list_tables ::
  "('s, 'f) engine \<Rightarrow> ('s, 'f) world \<Rightarrow> (failure + 'f pyval) \<times> ('s, 'f) world" where
  "list_tables eng w =
     (case db_table_names eng w of
        (Inl e, w1) \<Rightarrow> (Inl (Unhandled e), w1)
      | (Inr tables, w1) \<Rightarrow> (Inr (PyDict [(''tables'', PyList (map PyStr tables))]), w1))"

definition create_table ::
  "('s, 'f) engine \<Rightarrow> string \<Rightarrow> 'f TableCreateRequest \<Rightarrow> ('s, 'f) world
     \<Rightarrow> (failure + 'f pyval) \<times> ('s, 'f) world" where
  "create_table eng name body w =
     (if tc_data body = [] then
        (Inl (HTTPException 400 ''Data array must not be empty''), w)
      else
        (case db_create_table eng name (tc_data body) w of
           (Inr u, w1) \<Rightarrow>
             (Inr (PyDict [(''table'', PyStr name),
                           (''rows'', PyInt (int (length (tc_data body))))]), w1)
         | (Inl e, w1) \<Rightarrow>
             (if str_contains ''already exists'' (str_lower e) then
                (Inl (HTTPException 409 (''Table '' @ quoted name @ '' already exists'')), w1)
              else (Inl (HTTPException 500 e), w1))))"

definition drop_table ::
  "('s, 'f) engine \<Rightarrow> string \<Rightarrow> ('s, 'f) world \<Rightarrow> (failure + 'f pyval) \<times> ('s, 'f) world" where
  "drop_table eng name w =
     (case db_drop_table eng name w of
        (Inr u, w1) \<Rightarrow> (Inr (PyDict [(''deleted'', PyStr name)]), w1)
      | (Inl e, w1) \<Rightarrow>
          (Inl (HTTPException 404 (''Table '' @ quoted name @ '' not found'')), w1))"

definition count_rows ::
  "('s, 'f) engine \<Rightarrow> string \<Rightarrow> ('s, 'f) world \<Rightarrow> (failure + 'f pyval) \<times> ('s, 'f) world" where
  "count_rows eng name w =
     (case get_table eng name w of
        (Inl f, w1) \<Rightarrow> (Inl f, w1)
      | (Inr t, w1) \<Rightarrow>
          (case row_count eng t w1 of
             (Inl e, w2) \<Rightarrow> (Inl (Unhandled e), w2)
           | (Inr c, w2) \<Rightarrow> (Inr (PyDict [(''count'', PyInt c)]), w2)))"

definition add_documents ::
  "('s, 'f) engine \<Rightarrow> string \<Rightarrow> 'f AddDocumentsRequest \<Rightarrow> ('s, 'f) world
     \<Rightarrow> (failure + 'f pyval) \<times> ('s, 'f) world" where
  "add_documents eng name body w =
     (case get_table eng name w of
        (Inl f, w1) \<Rightarrow> (Inl f, w1)
      | (Inr t, w1) \<Rightarrow>
          (if ad_data body = [] then
             (Inl (HTTPException 400 ''Data array must not be empty''), w1)
           else
             (case table_add eng t (ad_data body) w1 of
                (Inl e, w2) \<Rightarrow> (Inl (Unhandled e), w2)
              | (Inr u, w2) \<Rightarrow>
                  (Inr (PyDict [(''added'', PyInt (int (length (ad_data body))))]), w2))))"

definition delete_documents ::
  "('s, 'f) engine \<Rightarrow> string \<Rightarrow> DeleteRequest \<Rightarrow> ('s, 'f) world
     \<Rightarrow> (failure + 'f pyval) \<times> ('s, 'f) world" where
  "delete_documents eng name body w =
     (case get_table eng name w of
        (Inl f, w1) \<Rightarrow> (Inl f, w1)
      | (Inr t, w1) \<Rightarrow>
          (if dr_filter body = [] then
             (Inl (HTTPException 400 ''Filter expression is required''), w1)
           else
             (case table_delete eng t (dr_filter body) w1 of
                (Inl e, w2) \<Rightarrow> (Inl (Unhandled e), w2)
              | (Inr u, w2) \<Rightarrow> (Inr (PyDict [(''deleted'', PyBool True)]), w2))))"

text \<open>
  The query each handler builds once the table is known to hold rows. An
  \<^verbatim>\<open>Optional[str]\<close> counts as true in a condition when it is a non-empty
  text, a \<^verbatim>\<open>str\<close> when it is non-empty.
\<close>

definition search_query :: "'f SearchRequest \<Rightarrow> 'f query" where
  "search_query body =
     (let query = table_search (Some (sr_vector body)) (Some ''vector'');
          query = (if sr_distance_type body \<noteq> []
                   then query_metric (sr_distance_type body) query else query);
          query = (case sr_filter body of
                     None \<Rightarrow> query
                   | Some f \<Rightarrow> if f \<noteq> [] then query_where f query else query)
      in query_limit (sr_limit body) query)"

definition scan_query :: "QueryRequest \<Rightarrow> 'f query" where
  "scan_query body =
     (case qr_filter body of
        None \<Rightarrow> query_limit (qr_limit body) (table_search None None)
      | Some f \<Rightarrow>
          if f \<noteq> []
          then query_limit (qr_limit body) (query_where f (table_search None None))
          else query_limit (qr_limit body) (table_search None None))"

text \<open>
  The end both handlers share: \<^verbatim>\<open>to_arrow\<close> runs the query,
  \<^verbatim>\<open>_rows_to_dicts\<close> materializes the rows, and the handler returns them.
\<close>

definition run_query ::
  "('s, 'f) engine \<Rightarrow> table \<Rightarrow> 'f query \<Rightarrow> ('s, 'f) world
     \<Rightarrow> (failure + 'f pyval) \<times> ('s, 'f) world" where
  "run_query eng t query w =
     (case query_to_arrow eng t query w of
        (Inl e, w1) \<Rightarrow> (Inl (Unhandled e), w1)
      | (Inr results, w1) \<Rightarrow>
          (case rows_to_dicts results of
             Inl e \<Rightarrow> (Inl (Unhandled e), w1)
           | Inr rows \<Rightarrow> (Inr (PyDict [(''results'', PyList rows)]), w1)))"

definition vector_search ::
  "('s, 'f) engine \<Rightarrow> string \<Rightarrow> 'f SearchRequest \<Rightarrow> ('s, 'f) world
     \<Rightarrow> (failure + 'f pyval) \<times> ('s, 'f) world" where
  "vector_search eng name body w =
     (case get_table eng name w of
        (Inl f, w1) \<Rightarrow> (Inl f, w1)
      | (Inr t, w1) \<Rightarrow>
          (case row_count eng t w1 of
             (Inl e, w2) \<Rightarrow> (Inl (Unhandled e), w2)
           | (Inr c, w2) \<Rightarrow>
               (if c = 0 then (Inr (PyDict [(''results'', PyList [])]), w2)
                else run_query eng t (search_query body) w2)))"

definition query_table ::
  "('s, 'f) engine \<Rightarrow> string \<Rightarrow> QueryRequest \<Rightarrow> ('s, 'f) world
     \<Rightarrow> (failure + 'f pyval) \<times> ('s, 'f) world" where
  "query_table eng name body w =
     (case get_table eng name w of
        (Inl f, w1) \<Rightarrow> (Inl f, w1)
      | (Inr t, w1) \<Rightarrow>
          (case row_count eng t w1 of
             (Inl e, w2) \<Rightarrow> (Inl (Unhandled e), w2)
           | (Inr c, w2) \<Rightarrow>
               (if c = 0 then (Inr (PyDict [(''results'', PyList [])]), w2)
                else run_query eng t (scan_query body) w2)))"

subsection \<open>Routes: validation, then the handler\<close>

definition route_delete ::
  "('s, 'f) engine \<Rightarrow> string \<Rightarrow> DeleteBody \<Rightarrow> ('s, 'f) world
     \<Rightarrow> (failure + 'f pyval) \<times> ('s, 'f) world" where
  "route_delete eng name b w =
     (case validate_DeleteRequest b of
        Inl f \<Rightarrow> (Inl f, w)
      | Inr body \<Rightarrow> delete_documents eng name body w)"

definition route_search ::
  "('s, 'f) engine \<Rightarrow> string \<Rightarrow> 'f SearchBody \<Rightarrow> ('s, 'f) world
     \<Rightarrow> (failure + 'f pyval) \<times> ('s, 'f) world" where
  "route_search eng name b w =
     (case validate_SearchRequest b of
        Inl f \<Rightarrow> (Inl f, w)
      | Inr body \<Rightarrow> vector_search eng name body w)"

definition route_query ::
  "('s, 'f) engine \<Rightarrow> string \<Rightarrow> QueryBody \<Rightarrow> ('s, 'f) world
     \<Rightarrow> (failure + 'f pyval) \<times> ('s, 'f) world" where
  "route_query eng name b w =
     (case validate_QueryRequest b of
        Inl f \<Rightarrow> (Inl f, w)
      | Inr body \<Rightarrow> query_table eng name body w)"

section \<open>Notions the properties are stated with\<close>

text \<open>
  A canonical value, in the words of the specification: a plain number, a
  string, a boolean, a sequence of canonical values or a mapping of canonical
  values.
\<close>

fun canonical :: "'f pyval \<Rightarrow> bool" where
  "canonical (PyInt i) = True"
| "canonical (PyFloat x) = True"
| "canonical (PyStr s) = True"
| "canonical (PyBool b) = True"
| "canonical (PyList vs) = (\<forall>v \<in> set vs. canonical v)"
| "canonical (PyDict kvs) = (\<forall>kv \<in> set kvs. canonical (snd kv))"
| "canonical v = False"

text \<open>
  The values some \<^verbatim>\<open>isinstance\<close> test of \<^verbatim>\<open>_to_serializable\<close> accepts;
  every other value reaches the final \<^verbatim>\<open>return value\<close>.
\<close>

fun recognized :: "'f pyval \<Rightarrow> bool" where
  "recognized (NpInteger i) = True"
| "recognized (NpTimedelta64 n u) = True"
| "recognized (NpFloating x) = True"
| "recognized (NpNdarray a) = True"
| "recognized (NpBool b) = True"
| "recognized (PyBytes bs) = True"
| "recognized (PaArray xs) = True"
| "recognized (PaChunkedArray cs) = True"
| "recognized (PyList vs) = True"
| "recognized (PyDict kvs) = True"
| "recognized v = False"












text \<open>
  The row count the server determines for a table in a given engine state,
  by the block \<open>row_count\<close>.
\<close>

definition count_of :: "('s, 'f) engine \<Rightarrow> table \<Rightarrow> 's \<Rightarrow> exn + int" where
  "count_of eng t s = fst (row_count eng t \<lparr>st = s, calls = []\<rparr>)"

section \<open>An in-memory engine\<close>

text \<open>
  A small engine to run the handlers on: the state lists each table with its
  rows. A filter selects the rows whose field \<^verbatim>\<open>text\<close> is the filter's text;
  a query returns the selected rows up to the limit and does not rank them.
\<close>

type_synonym 'f store = "(string \<times> 'f document list) list"

definition no_table :: "string \<Rightarrow> exn" where
  "no_table name = ''Table '' @ quoted name @ '' was not found''"

definition row_matches :: "string \<Rightarrow> 'f document \<Rightarrow> bool" where
  "row_matches flt row = (map_of row ''text'' = Some (PyStr flt))"

definition update_rows ::
  "string \<Rightarrow> ('f document list \<Rightarrow> 'f document list) \<Rightarrow> 'f store \<Rightarrow> 'f store" where
  "update_rows name f s = map (\<lambda>p. if fst p = name then (fst p, f (snd p)) else p) s"

definition select_rows :: "'f query \<Rightarrow> 'f document list \<Rightarrow> 'f document list" where
  "select_rows q rows =
     (let hits = (case q_where q of None \<Rightarrow> rows | Some f \<Rightarrow> filter (row_matches f) rows)
      in case q_limit q of None \<Rightarrow> hits | Some n \<Rightarrow> take (nat n) hits)"

definition memory_engine :: "('f store, 'f) engine" where
  "memory_engine =
     \<lparr>e_table_names = (\<lambda>s. Inr (map fst s)),
      e_open_table = (\<lambda>name s.
         case map_of s name of None \<Rightarrow> Inl (no_table name) | Some rows \<Rightarrow> Inr ()),
      e_create_table = (\<lambda>name docs s.
         case map_of s name of
           None \<Rightarrow> (Inr (), s @ [(name, docs)])
         | Some rows \<Rightarrow> (Inl (''Table '' @ quoted name @ '' already exists''), s)),
      e_drop_table = (\<lambda>name s.
         case map_of s name of
           None \<Rightarrow> (Inl (no_table name), s)
         | Some rows \<Rightarrow> (Inr (), filter (\<lambda>p. fst p \<noteq> name) s)),
      e_count_rows = (\<lambda>t s.
         case map_of s t of None \<Rightarrow> Inl (no_table t) | Some rows \<Rightarrow> Inr (int (length rows))),
      e_to_pandas = (\<lambda>t s.
         case map_of s t of None \<Rightarrow> Inl (no_table t) | Some rows \<Rightarrow> Inr rows),
      e_add = (\<lambda>t docs s.
         case map_of s t of
           None \<Rightarrow> (Inl (no_table t), s)
         | Some rows \<Rightarrow> (Inr (), update_rows t (\<lambda>rs. rs @ docs) s)),
      e_delete = (\<lambda>t flt s.
         case map_of s t of
           None \<Rightarrow> (Inl (no_table t), s)
         | Some rows \<Rightarrow> (Inr (), update_rows t (filter (\<lambda>r. \<not> row_matches flt r)) s)),
      e_to_arrow = (\<lambda>t q s.
         case map_of s t of
           None \<Rightarrow> Inl (no_table t)
         | Some rows \<Rightarrow> Inr (WithToPandas (map PyDict (select_rows q rows))))\<rparr>"

text \<open>The same engine on storage it may not write to: dropping a table fails.\<close>

definition read_only_engine :: "('f store, 'f) engine" where
  "read_only_engine =
     memory_engine\<lparr>e_drop_table := (\<lambda>name s. (Inl ''Permission denied (os error 13)'', s))\<rparr>"

text \<open>
  The same engine with a check of the payload that comes before the look at
  the name: a batch that holds an empty document is refused.
\<close>

definition checking_engine :: "('f store, 'f) engine" where
  "checking_engine =
     memory_engine\<lparr>e_create_table := (\<lambda>name docs s.
        if [] \<in> set docs then (Inl ''Cannot infer a schema from an empty document'', s)
        else e_create_table memory_engine name docs s)\<rparr>"

text \<open>
  Modelled from the spec: the engine's \<^verbatim>\<open>delete\<close>, of which the repository
  holds only the call. Section 4.2 has it delete all documents matching the
  predicate, matching zero documents not being an error. What a filter text
  means is the engine's business: \<open>sat\<close> is any reading of filters as
  predicates on rows.
\<close>

definition filtering_engine :: "(string \<Rightarrow> 'f document \<Rightarrow> bool) \<Rightarrow> ('f store, 'f) engine" where
  "filtering_engine sat =
     memory_engine\<lparr>e_delete := (\<lambda>t flt s.
        case map_of s t of
          None \<Rightarrow> (Inl (no_table t), s)
        | Some rows \<Rightarrow> (Inr (), update_rows t (filter (\<lambda>r. \<not> sat flt r)) s))\<rparr>"

text \<open>
  A store with the table \<^verbatim>\<open>docs\<close> of two rows and the table \<^verbatim>\<open>empty\<close> of
  none, and the world of a request that has issued no call yet.
\<close>

definition docs_store :: "real store" where
  "docs_store =
     [(''docs'', [[(''text'', PyStr ''hello''), (''vector'', PyList [PyFloat 0.1, PyFloat 0.2, PyFloat 0.3])],
                  [(''text'', PyStr ''world''), (''vector'', PyList [PyFloat 0.4, PyFloat 0.1, PyFloat 0])]]),
      (''empty'', [])]"

definition fresh :: "'s \<Rightarrow> ('s, 'f) world" where
  "fresh s = \<lparr>st = s, calls = []\<rparr>"

section \<open>Facts about the codec and the comprehensions\<close>


















lemma collect_map_Inr: "collect (map Inr xs) = Inr xs"
  by (induction xs) auto















lemma canonical_unchanged: "canonical v \<Longrightarrow> to_serializable v = Inr v"
proof (induction v rule: to_serializable.induct)
  case (9 vs)
  then have m: "map to_serializable vs = map Inr vs" by (intro map_cong) auto
  show ?case by (simp add: m collect_map_Inr)
next
  case (10 kvs)
  let ?f = "\<lambda>(k, v). case to_serializable v of Inl e \<Rightarrow> Inl e | Inr r \<Rightarrow> Inr (k, r)"
  have m: "map ?f kvs = map Inr kvs"
  proof (intro map_cong refl)
    fix kv assume mem: "kv \<in> set kvs"
    obtain k v where kv: "kv = (k, v)" by (cases kv)
    with mem 10 have "to_serializable v = Inr v" by force
    with kv show "?f kv = Inr kv" by simp
  qed
  show ?case by (simp add: m collect_map_Inr)
qed simp_all

lemma fallback_unchanged: "\<not> recognized v \<Longrightarrow> to_serializable v = Inr v"
  by (cases v) simp_all




section \<open>Properties of the value normalizer\<close>

text \<open>
  Claim C6. The normalizer leaves canonical values as they are: a plain
  number, a string, a boolean, a sequence of canonical values and a mapping of
  canonical values each come back unchanged. A value none of the
  \<^verbatim>\<open>isinstance\<close> tests accepts reaches the final \<^verbatim>\<open>return value\<close> and
  comes back unchanged as well.
\<close>

theorem normalize_canonical_unchanged:
  "(canonical v \<longrightarrow> to_serializable v = Inr v)
   \<and> (\<not> recognized v \<longrightarrow> to_serializable v = Inr v)"
  by (simp add: canonical_unchanged fallback_unchanged)

theorem normalize_canonical_unchanged_witness:
  "canonical (PyDict [(''text'', PyStr ''hello''),
                      (''vector'', PyList [PyFloat (0.1 :: real), PyFloat 0.2, PyFloat 0.3]),
                      (''rank'', PyInt 1), (''seen'', PyBool True)])
   \<and> to_serializable (PyDict [(''text'', PyStr ''hello''),
                      (''vector'', PyList [PyFloat (0.1 :: real), PyFloat 0.2, PyFloat 0.3]),
                      (''rank'', PyInt 1), (''seen'', PyBool True)]) =
       Inr (PyDict [(''text'', PyStr ''hello''),
                      (''vector'', PyList [PyFloat 0.1, PyFloat 0.2, PyFloat 0.3]),
                      (''rank'', PyInt 1), (''seen'', PyBool True)])
   \<and> \<not> recognized (PyTuple [NpInteger 1 :: real pyval])
   \<and> to_serializable (PyTuple [NpInteger 1 :: real pyval]) = Inr (PyTuple [NpInteger 1])"
  using normalize_canonical_unchanged [of "PyDict [(''text'', PyStr ''hello''),
                      (''vector'', PyList [PyFloat (0.1 :: real), PyFloat 0.2, PyFloat 0.3]),
                      (''rank'', PyInt 1), (''seen'', PyBool True)]"]
        normalize_canonical_unchanged [of "PyTuple [NpInteger 1 :: real pyval]"]
  by simp






section \<open>Facts about the handlers' steps\<close>

lemmas mem_simps = memory_engine_def docs_store_def fresh_def no_table_def quoted_def
  update_rows_def row_matches_def select_rows_def

lemma get_table_found:
  "e_open_table eng name (st w) = Inr () \<Longrightarrow>
   get_table eng name w = (Inr name, w\<lparr>calls := calls w @ [OpenTable name]\<rparr>)"
  by (simp add: get_table_def db_open_table_def)

lemma get_table_missing:
  "e_open_table eng name (st w) = Inl e \<Longrightarrow>
   get_table eng name w =
     (Inl (HTTPException 404 (''Table '' @ quoted name @ '' not found'')),
      w\<lparr>calls := calls w @ [OpenTable name]\<rparr>)"
  by (simp add: get_table_def db_open_table_def)



lemma row_count_fast:
  "e_count_rows eng t (st w) = Inr c \<Longrightarrow>
   row_count eng t w = (Inr c, w\<lparr>calls := calls w @ [CountRows t]\<rparr>)"
  by (simp add: row_count_def table_count_rows_def)

lemma row_count_slow:
  "e_count_rows eng t (st w) = Inl e \<Longrightarrow> e_to_pandas eng t (st w) = Inr frame \<Longrightarrow>
   row_count eng t w =
     (Inr (int (length frame)), w\<lparr>calls := calls w @ [CountRows t, ToPandas t]\<rparr>)"
  by (simp add: row_count_def table_count_rows_def table_to_pandas_def)








lemma str_contains_middle: "str_contains sub (pre @ sub @ post)"
proof (induction pre)
  case Nil
  show ?case
  proof (cases "sub @ post")
    case Nil
    then show ?thesis by simp
  next
    case (Cons a list)
    have "take (length sub) (sub @ post) = sub" by simp
    with Cons show ?thesis by simp
  qed
next
  case (Cons a pre)
  then show ?case by simp
qed

lemma already_exists_found:
  "str_contains ''already exists'' (str_lower (pre @ '' already exists''))"
proof -
  have "str_lower (pre @ '' already exists'') =
          (str_lower pre @ '' '') @ ''already exists'' @ []"
    by (simp add: str_lower_def lower_char_def byte_def)
  then show ?thesis by (simp only: str_contains_middle)
qed

lemma map_of_update_rows:
  "map_of (update_rows name f s) name = map_option f (map_of s name)"
  by (induction s) (auto simp add: update_rows_def)

lemma filter_none_out:
  "(\<forall>r \<in> set rows. \<not> sat flt r) \<Longrightarrow> filter (\<lambda>r. \<not> sat flt r) rows = rows"
  by (induction rows) auto

section \<open>Properties of the handlers\<close>

text \<open>
  Claim C1. When the table opens and its row count is zero (the engine's
  \<^verbatim>\<open>count_rows\<close> answers 0, or it raises and the materialized frame is
  empty), the vector search and the filtered query both return
  \<^verbatim>\<open>{"results": []}\<close>, whatever vector, filter and limit the request carries.
  The only calls issued are \<^verbatim>\<open>open_table\<close> and the row count; no query
  reaches the engine, and the engine's state is as before.
\<close>

theorem empty_table_short_circuits:
  assumes opened: "e_open_table eng name (st w) = Inr ()"
    and empty: "e_count_rows eng name (st w) = Inr 0 \<or>
                (\<exists>e. e_count_rows eng name (st w) = Inl e \<and> e_to_pandas eng name (st w) = Inr [])"
  shows "vector_search eng name sbody w =
           (Inr (PyDict [(''results'', PyList [])]),
            w\<lparr>calls := calls w @ OpenTable name # CountRows name #
                 (if e_count_rows eng name (st w) = Inr 0 then [] else [ToPandas name])\<rparr>)
       \<and> query_table eng name qbody w =
           (Inr (PyDict [(''results'', PyList [])]),
            w\<lparr>calls := calls w @ OpenTable name # CountRows name #
                 (if e_count_rows eng name (st w) = Inr 0 then [] else [ToPandas name])\<rparr>)"
proof -
  let ?w1 = "w\<lparr>calls := calls w @ [OpenTable name]\<rparr>"
  have g: "get_table eng name w = (Inr name, ?w1)" using opened by (rule get_table_found)
  from empty show ?thesis
  proof
    assume c: "e_count_rows eng name (st w) = Inr 0"
    then have "row_count eng name ?w1 = (Inr 0, ?w1\<lparr>calls := calls ?w1 @ [CountRows name]\<rparr>)"
      by (simp add: row_count_fast)
    with g c show ?thesis by (simp add: vector_search_def query_table_def)
  next
    assume "\<exists>e. e_count_rows eng name (st w) = Inl e \<and> e_to_pandas eng name (st w) = Inr []"
    then obtain e where c: "e_count_rows eng name (st ?w1) = Inl e"
        "e_to_pandas eng name (st ?w1) = Inr []"
      by auto
    then have "row_count eng name ?w1 =
        (Inr (int (length ([] :: 'b document list))),
         ?w1\<lparr>calls := calls ?w1 @ [CountRows name, ToPandas name]\<rparr>)"
      by (rule row_count_slow)
    with g c show ?thesis by (simp add: vector_search_def query_table_def)
  qed
qed

theorem empty_table_short_circuits_witness:
  "e_open_table memory_engine ''empty'' docs_store = Inr ()
   \<and> e_count_rows memory_engine ''empty'' docs_store = Inr 0
   \<and> vector_search memory_engine ''empty''
       \<lparr>sr_vector = [0.1, 0.2, 0.3], sr_limit = 10, sr_distance_type = ''cosine'',
        sr_filter = Some ''hello''\<rparr>
       (fresh docs_store) =
     (Inr (PyDict [(''results'', PyList [])]),
      \<lparr>st = docs_store, calls = [OpenTable ''empty'', CountRows ''empty'']\<rparr>)
   \<and> query_table memory_engine ''empty'' \<lparr>qr_filter = Some ''hello'', qr_limit = 100\<rparr>
       (fresh docs_store) =
     (Inr (PyDict [(''results'', PyList [])]),
      \<lparr>st = docs_store, calls = [OpenTable ''empty'', CountRows ''empty'']\<rparr>)"
proof -
  have h1: "e_open_table memory_engine ''empty'' (st (fresh docs_store)) = Inr ()"
    by (simp add: mem_simps)
  have h2: "e_count_rows memory_engine ''empty'' (st (fresh docs_store)) = Inr 0"
    by (simp add: mem_simps)
  have w: "fresh docs_store = \<lparr>st = docs_store, calls = []\<rparr>" by (simp add: fresh_def)
  from empty_table_short_circuits [OF h1 disjI1 [OF h2]] h1 h2 show ?thesis
    by (simp add: w)
qed

text \<open>
  Claim C2, as the code has it. A create-table request with a non-empty
  payload fails with status 409 and the detail \<^verbatim>\<open>Table '<name>' already
  exists\<close> exactly when the engine's \<^verbatim>\<open>create_table\<close> raises an exception
  whose text holds \<^verbatim>\<open>already exists\<close> in any letter case, which is how the
  handler recognises a name that is taken. Any other exception of the engine,
  also for a name that is taken, is answered with status 500 and the engine's
  text. On the in-memory engine, which reports a taken name in those words,
  every request that names a table of the store is answered 409, whatever
  the non-empty payload.
\<close>

theorem create_conflict_by_message:
  assumes nonempty: "tc_data body \<noteq> []"
  shows "(fst (create_table eng name body w) =
            Inl (HTTPException 409 (''Table '' @ quoted name @ '' already exists''))
          \<longleftrightarrow> (\<exists>e. fst (e_create_table eng name (tc_data body) (st w)) = Inl e
                   \<and> str_contains ''already exists'' (str_lower e)))
       \<and> (\<forall>e. fst (e_create_table eng name (tc_data body) (st w)) = Inl e
               \<and> \<not> str_contains ''already exists'' (str_lower e) \<longrightarrow>
               fst (create_table eng name body w) = Inl (HTTPException 500 e))
       \<and> (map_of s name \<noteq> None \<longrightarrow>
            create_table memory_engine name body (fresh s) =
              (Inl (HTTPException 409 (''Table '' @ quoted name @ '' already exists'')),
               \<lparr>st = s, calls = [CreateTable name (tc_data body)]\<rparr>))"
proof (intro conjI allI impI)
  show "fst (create_table eng name body w) =
            Inl (HTTPException 409 (''Table '' @ quoted name @ '' already exists''))
          \<longleftrightarrow> (\<exists>e. fst (e_create_table eng name (tc_data body) (st w)) = Inl e
                   \<and> str_contains ''already exists'' (str_lower e))"
    using nonempty
    by (cases "e_create_table eng name (tc_data body) (st w)";
        cases "fst (e_create_table eng name (tc_data body) (st w))")
       (auto simp add: create_table_def db_create_table_def)
next
  fix e
  assume "fst (e_create_table eng name (tc_data body) (st w)) = Inl e
          \<and> \<not> str_contains ''already exists'' (str_lower e)"
  with nonempty show "fst (create_table eng name body w) = Inl (HTTPException 500 e)"
    by (cases "e_create_table eng name (tc_data body) (st w)")
       (auto simp add: create_table_def db_create_table_def)
next
  assume "map_of s name \<noteq> None"
  then obtain rows where rows: "map_of s name = Some rows" by auto
  have found: "str_contains ''already exists''
                 (str_lower ((''Table '' @ quoted name) @ '' already exists''))"
    by (rule already_exists_found)
  have "e_create_table memory_engine name (tc_data body) s =
          (Inl (''Table '' @ quoted name @ '' already exists''), s)"
    using rows by (simp add: memory_engine_def)
  with nonempty found show "create_table memory_engine name body (fresh s) =
              (Inl (HTTPException 409 (''Table '' @ quoted name @ '' already exists'')),
               \<lparr>st = s, calls = [CreateTable name (tc_data body)]\<rparr>)"
    by (simp add: create_table_def db_create_table_def fresh_def)
qed

theorem create_conflict_by_message_witness:
  "map_of docs_store ''docs'' \<noteq> None
   \<and> create_table memory_engine ''docs'' \<lparr>tc_data = [[(''text'', PyStr ''again'')]]\<rparr>
       (fresh docs_store) =
     (Inl (HTTPException 409 ''Table 'docs' already exists''),
      \<lparr>st = docs_store, calls = [CreateTable ''docs'' [[(''text'', PyStr ''again'')]]]\<rparr>)
   \<and> fst (e_create_table checking_engine ''docs'' [[]] docs_store) =
       Inl ''Cannot infer a schema from an empty document''
   \<and> fst (create_table checking_engine ''docs'' \<lparr>tc_data = [[]]\<rparr> (fresh docs_store)) =
       (Inl (HTTPException 500 ''Cannot infer a schema from an empty document'')
          :: failure + real pyval)"
proof -
  let ?body = "\<lparr>tc_data = [[(''text'', PyStr ''again'' :: real pyval)]]\<rparr>"
  let ?bad = "\<lparr>tc_data = [[] :: real document]\<rparr>"
  have h1: "tc_data ?body \<noteq> []" and h1': "tc_data ?bad \<noteq> []" by simp_all
  have h2: "map_of docs_store ''docs'' \<noteq> None" by (simp add: docs_store_def)
  have h3: "fst (e_create_table checking_engine ''docs'' (tc_data ?bad) (st (fresh docs_store))) =
              Inl ''Cannot infer a schema from an empty document''"
    by (simp add: checking_engine_def fresh_def)
  have h4: "\<not> str_contains ''already exists''
              (str_lower ''Cannot infer a schema from an empty document'')"
    by code_simp
  from create_conflict_by_message [OF h1, of memory_engine "''docs''" "fresh docs_store" docs_store]
       create_conflict_by_message [OF h1', of checking_engine "''docs''" "fresh docs_store" docs_store]
       h2 h3 h4
  show ?thesis by (simp add: quoted_def fresh_def)
qed

text \<open>
  The claim as worded fails on an engine that checks the payload before the
  name: the table \<^verbatim>\<open>docs\<close> exists, the payload is not empty, and the answer
  is 500.
\<close>

theorem create_conflict_counterexample:
  "e_open_table checking_engine ''docs'' docs_store = Inr ()
   \<and> e_table_names checking_engine docs_store = Inr [''docs'', ''empty'']
   \<and> tc_data \<lparr>tc_data = [[] :: real document]\<rparr> \<noteq> []
   \<and> create_table checking_engine ''docs'' \<lparr>tc_data = [[]]\<rparr> (fresh docs_store) =
       (Inl (HTTPException 500 ''Cannot infer a schema from an empty document''),
        \<lparr>st = docs_store, calls = [CreateTable ''docs'' [[]]]\<rparr>)
   \<and> status_code (HTTPException 500 ''Cannot infer a schema from an empty document'') \<noteq> 409"
proof -
  have h: "\<not> str_contains ''already exists''
              (str_lower ''Cannot infer a schema from an empty document'')"
    by code_simp
  show ?thesis
    using h by (simp add: checking_engine_def mem_simps create_table_def db_create_table_def)
qed

text \<open>
  Claim C3, as the code has it. The drop-table handler fails with status 404
  and the detail \<^verbatim>\<open>Table '<name>' not found\<close> exactly when the engine's
  \<^verbatim>\<open>drop_table\<close> raises, whatever the exception (a missing table is one
  cause among others), and returns \<^verbatim>\<open>{"deleted": name}\<close> exactly when the
  engine's call returns. No failure of the engine is reported with status 500
  and the engine's text is not passed on.
\<close>

theorem drop_table_failures:
  "((\<exists>e. fst (e_drop_table eng name (st w)) = Inl e) \<longleftrightarrow>
      fst (drop_table eng name w) =
        Inl (HTTPException 404 (''Table '' @ quoted name @ '' not found'')))
   \<and> (fst (e_drop_table eng name (st w)) = Inr () \<longleftrightarrow>
      fst (drop_table eng name w) = Inr (PyDict [(''deleted'', PyStr name)]))
   \<and> snd (drop_table eng name w) =
        \<lparr>st = snd (e_drop_table eng name (st w)), calls = calls w @ [DropTable name]\<rparr>"
  by (cases "e_drop_table eng name (st w)"; cases "fst (e_drop_table eng name (st w))")
     (auto simp add: drop_table_def db_drop_table_def)

theorem drop_table_failures_witness:
  "fst (e_drop_table memory_engine ''ghost'' docs_store) = Inl ''Table 'ghost' was not found''
   \<and> fst (drop_table memory_engine ''ghost'' (fresh docs_store)) =
       (Inl (HTTPException 404 ''Table 'ghost' not found'') :: failure + real pyval)
   \<and> fst (drop_table memory_engine ''docs'' (fresh docs_store)) =
       (Inr (PyDict [(''deleted'', PyStr ''docs'')]) :: failure + real pyval)"
  using drop_table_failures [of memory_engine "''ghost''" "fresh docs_store"]
        drop_table_failures [of memory_engine "''docs''" "fresh docs_store"]
  by (simp add: mem_simps)

text \<open>
  The claim as the specification words it fails: on storage that refuses the
  write, the table \<^verbatim>\<open>docs\<close> exists and opens, the engine's drop raises
  \<^verbatim>\<open>Permission denied\<close>, and the handler answers 404, not 500.
\<close>

theorem drop_table_counterexample:
  "e_open_table read_only_engine ''docs'' docs_store = Inr ()
   \<and> e_drop_table read_only_engine ''docs'' docs_store =
       (Inl ''Permission denied (os error 13)'', docs_store)
   \<and> drop_table read_only_engine ''docs'' (fresh docs_store) =
       (Inl (HTTPException 404 ''Table 'docs' not found''),
        \<lparr>st = docs_store, calls = [DropTable ''docs'']\<rparr>)
   \<and> status_code (HTTPException 404 ''Table 'docs' not found'') \<noteq> 500"
  by (simp add: read_only_engine_def mem_simps drop_table_def db_drop_table_def)

text \<open>
  Claim C4, as the code has it. A create-table request with an empty document
  list fails with status 400 before any call to the engine. An add-documents
  request with an empty document list, for a table that opens, fails with
  status 400; whether the table opens or not, the only call the handler
  issues is \<^verbatim>\<open>open_table\<close>, so the empty batch never reaches the engine's
  \<^verbatim>\<open>add\<close>.
\<close>

theorem empty_batch_rejected:
  "create_table eng name \<lparr>tc_data = []\<rparr> w =
     (Inl (HTTPException 400 ''Data array must not be empty''), w)
   \<and> (e_open_table eng name (st w) = Inr () \<longrightarrow>
        fst (add_documents eng name \<lparr>ad_data = []\<rparr> w) =
          Inl (HTTPException 400 ''Data array must not be empty''))
   \<and> snd (add_documents eng name \<lparr>ad_data = []\<rparr> w) = w\<lparr>calls := calls w @ [OpenTable name]\<rparr>"
  by (cases "e_open_table eng name (st w)")
     (simp_all add: create_table_def add_documents_def get_table_def db_open_table_def)

theorem empty_batch_rejected_witness:
  "create_table memory_engine ''docs'' \<lparr>tc_data = []\<rparr> (fresh docs_store) =
     (Inl (HTTPException 400 ''Data array must not be empty''), fresh docs_store)
   \<and> e_open_table memory_engine ''docs'' docs_store = Inr ()
   \<and> add_documents memory_engine ''docs'' \<lparr>ad_data = []\<rparr> (fresh docs_store) =
     (Inl (HTTPException 400 ''Data array must not be empty''),
      \<lparr>st = docs_store, calls = [OpenTable ''docs'']\<rparr>)"
proof -
  have h: "e_open_table memory_engine ''docs'' (st (fresh docs_store)) = Inr ()"
    by (simp add: mem_simps)
  have w: "fresh docs_store = \<lparr>st = docs_store, calls = []\<rparr>" by (simp add: fresh_def)
  from empty_batch_rejected [of memory_engine "''docs''" "fresh docs_store"] h
  show ?thesis by (simp add: w prod_eq_iff)
qed

text \<open>
  The claim as worded fails for an add-documents request that names a table
  the engine cannot open: the answer is 404, not 400.
\<close>

theorem empty_batch_counterexample:
  "add_documents memory_engine ''ghost'' \<lparr>ad_data = []\<rparr> (fresh docs_store) =
     (Inl (HTTPException 404 ''Table 'ghost' not found''),
      \<lparr>st = docs_store, calls = [OpenTable ''ghost'']\<rparr>)
   \<and> status_code (HTTPException 404 ''Table 'ghost' not found'') \<noteq> 400"
  by (simp add: mem_simps add_documents_def get_table_def db_open_table_def)

text \<open>
  Claim C5, as the code has it. For a table that opens, the delete-documents
  handler fails with status 400 when the filter text is empty, having issued
  \<^verbatim>\<open>open_table\<close> only. A body without the field \<^verbatim>\<open>filter\<close> does not fit
  \<^verbatim>\<open>DeleteRequest\<close> and is refused by validation before the handler runs.
  With a non-empty filter for which the engine's \<^verbatim>\<open>delete\<close> returns, the
  handler returns \<^verbatim>\<open>{"deleted": true}\<close> and the state is the one the engine's
  delete left. On an engine that deletes the rows its filter matches, under
  any reading of filters, a non-empty filter that matches no row of the table
  is answered \<^verbatim>\<open>{"deleted": true}\<close> and the table's row count after the
  request is the count before it.
\<close>

theorem delete_documents_contract:
  assumes opened: "e_open_table eng name (st w) = Inr ()"
  shows "(dr_filter body = [] \<longrightarrow>
            delete_documents eng name body w =
              (Inl (HTTPException 400 ''Filter expression is required''),
               w\<lparr>calls := calls w @ [OpenTable name]\<rparr>))
       \<and> route_delete eng name \<lparr>db_filter = None\<rparr> w = (Inl RequestValidationError, w)
       \<and> (dr_filter body \<noteq> [] \<and> e_delete eng name (dr_filter body) (st w) = (Inr (), s') \<longrightarrow>
            delete_documents eng name body w =
              (Inr (PyDict [(''deleted'', PyBool True)]),
               \<lparr>st = s', calls = calls w @ [OpenTable name, Delete name (dr_filter body)]\<rparr>))
       \<and> (map_of s tname = Some rows \<and> dr_filter body \<noteq> []
            \<and> (\<forall>r \<in> set rows. \<not> sat (dr_filter body) r) \<longrightarrow>
            fst (delete_documents (filtering_engine sat) tname body (fresh s)) =
              Inr (PyDict [(''deleted'', PyBool True)])
            \<and> count_of (filtering_engine sat) tname s = Inr (int (length rows))
            \<and> count_of (filtering_engine sat) tname
                 (st (snd (delete_documents (filtering_engine sat) tname body (fresh s)))) =
                Inr (int (length rows)))"
proof (intro conjI impI)
  show "route_delete eng name \<lparr>db_filter = None\<rparr> w = (Inl RequestValidationError, w)"
    by (simp add: route_delete_def validate_DeleteRequest_def)
next
  assume "dr_filter body = []"
  then show "delete_documents eng name body w =
              (Inl (HTTPException 400 ''Filter expression is required''),
               w\<lparr>calls := calls w @ [OpenTable name]\<rparr>)"
    using get_table_found [OF opened] by (simp add: delete_documents_def)
next
  assume "dr_filter body \<noteq> [] \<and> e_delete eng name (dr_filter body) (st w) = (Inr (), s')"
  then show "delete_documents eng name body w =
              (Inr (PyDict [(''deleted'', PyBool True)]),
               \<lparr>st = s', calls = calls w @ [OpenTable name, Delete name (dr_filter body)]\<rparr>)"
    using get_table_found [OF opened] by (simp add: delete_documents_def table_delete_def)
next
  let ?eng = "filtering_engine sat"
  let ?f = "dr_filter body"
  assume a: "map_of s tname = Some rows \<and> dr_filter body \<noteq> []
             \<and> (\<forall>r \<in> set rows. \<not> sat (dr_filter body) r)"
  let ?s' = "update_rows tname (filter (\<lambda>r. \<not> sat ?f r)) s"
  have keep: "filter (\<lambda>r. \<not> sat ?f r) rows = rows" using a by (simp add: filter_none_out)
  have after: "map_of ?s' tname = Some rows" using a keep by (simp add: map_of_update_rows)
  have g: "get_table ?eng tname (fresh s) =
             (Inr tname, (fresh s)\<lparr>calls := calls (fresh s) @ [OpenTable tname]\<rparr>)"
    by (rule get_table_found)
       (use a in \<open>simp add: filtering_engine_def memory_engine_def fresh_def\<close>)
  have del: "e_delete ?eng tname ?f s = (Inr (), ?s')"
    using a by (simp add: filtering_engine_def)
  have result: "delete_documents ?eng tname body (fresh s) =
      (Inr (PyDict [(''deleted'', PyBool True)]),
       \<lparr>st = ?s', calls = [OpenTable tname, Delete tname ?f]\<rparr>)"
    using a g del by (simp add: delete_documents_def table_delete_def fresh_def)
  have count: "count_of ?eng tname x = Inr (int (length rows))" if "map_of x tname = Some rows" for x
    using that
    by (simp add: count_of_def row_count_def table_count_rows_def filtering_engine_def
          memory_engine_def)
  show "fst (delete_documents ?eng tname body (fresh s)) = Inr (PyDict [(''deleted'', PyBool True)])"
    using result by simp
  show "count_of ?eng tname s = Inr (int (length rows))" using a count by simp
  show "count_of ?eng tname (st (snd (delete_documents ?eng tname body (fresh s)))) =
          Inr (int (length rows))"
    using result after count by simp
qed

theorem delete_documents_contract_witness:
  "e_open_table memory_engine ''docs'' docs_store = Inr ()
   \<and> delete_documents memory_engine ''docs'' \<lparr>dr_filter = ''''\<rparr> (fresh docs_store) =
       (Inl (HTTPException 400 ''Filter expression is required''),
        \<lparr>st = docs_store, calls = [OpenTable ''docs'']\<rparr>)
   \<and> filter (row_matches ''nobody'') (the (map_of docs_store ''docs'')) = []
   \<and> fst (delete_documents (filtering_engine row_matches) ''docs'' \<lparr>dr_filter = ''nobody''\<rparr>
            (fresh docs_store)) =
       Inr (PyDict [(''deleted'', PyBool True)])
   \<and> count_of (filtering_engine row_matches) ''docs'' docs_store = Inr 2
   \<and> count_of (filtering_engine row_matches) ''docs''
        (st (snd (delete_documents (filtering_engine row_matches) ''docs''
                    \<lparr>dr_filter = ''nobody''\<rparr> (fresh docs_store)))) = Inr 2"
proof -
  let ?rows = "the (map_of docs_store ''docs'')"
  have w: "fresh docs_store = \<lparr>st = docs_store, calls = []\<rparr>" by (simp add: fresh_def)
  have h1: "e_open_table memory_engine ''docs'' (st (fresh docs_store)) = Inr ()"
    by (simp add: mem_simps)
  have h2: "map_of docs_store ''docs'' = Some ?rows" by (simp add: docs_store_def)
  have h3: "\<forall>r \<in> set ?rows. \<not> row_matches (dr_filter \<lparr>dr_filter = ''nobody''\<rparr>) r"
    by (simp add: docs_store_def row_matches_def)
  have h4: "length ?rows = 2" by (simp add: docs_store_def)
  have h5: "filter (row_matches ''nobody'') ?rows = []"
    by (simp add: docs_store_def row_matches_def)
  from delete_documents_contract [OF h1, where body = "\<lparr>dr_filter = ''''\<rparr>"]
       delete_documents_contract [OF h1, where body = "\<lparr>dr_filter = ''nobody''\<rparr>"
         and s = docs_store and tname = "''docs''" and rows = ?rows and sat = row_matches]
       h1 h2 h3 h4 h5
  show ?thesis by (simp add: w)
qed

text \<open>
  The claim as worded fails twice: an empty filter for a table the engine
  cannot open is answered 404, and a body without a filter is refused by
  validation (status 422), not by the handler's 400.
\<close>

theorem delete_documents_counterexample:
  "delete_documents memory_engine ''ghost'' \<lparr>dr_filter = ''''\<rparr> (fresh docs_store) =
     (Inl (HTTPException 404 ''Table 'ghost' not found''),
      \<lparr>st = docs_store, calls = [OpenTable ''ghost'']\<rparr>)
   \<and> route_delete memory_engine ''docs'' \<lparr>db_filter = None\<rparr> (fresh docs_store) =
     (Inl RequestValidationError, fresh docs_store)
   \<and> status_code (HTTPException 404 ''Table 'ghost' not found'') \<noteq> 400
   \<and> status_code RequestValidationError \<noteq> 400"
  by (simp add: mem_simps delete_documents_def get_table_def db_open_table_def
        route_delete_def validate_DeleteRequest_def)



text \<open>
  Claim C10. The add-documents and delete-documents handlers resolve the table
  before they look at the payload: when the engine cannot open the named
  table, both answer 404 with the detail \<^verbatim>\<open>Table '<name>' not found\<close> for
  every body, an empty document list and an empty filter included, and issue
  no call but \<^verbatim>\<open>open_table\<close>.
\<close>

theorem not_found_before_validation:
  assumes "e_open_table eng name (st w) = Inl e"
  shows "add_documents eng name abody w =
           (Inl (HTTPException 404 (''Table '' @ quoted name @ '' not found'')),
            w\<lparr>calls := calls w @ [OpenTable name]\<rparr>)
       \<and> delete_documents eng name dbody w =
           (Inl (HTTPException 404 (''Table '' @ quoted name @ '' not found'')),
            w\<lparr>calls := calls w @ [OpenTable name]\<rparr>)"
  using get_table_missing [OF assms] by (simp add: add_documents_def delete_documents_def)

theorem not_found_before_validation_witness:
  "e_open_table memory_engine ''ghost'' docs_store = Inl ''Table 'ghost' was not found''
   \<and> fst (add_documents memory_engine ''ghost'' \<lparr>ad_data = []\<rparr> (fresh docs_store)) =
       Inl (HTTPException 404 ''Table 'ghost' not found'')
   \<and> fst (delete_documents memory_engine ''ghost'' \<lparr>dr_filter = ''''\<rparr> (fresh docs_store)) =
       (Inl (HTTPException 404 ''Table 'ghost' not found'') :: failure + real pyval)"
proof -
  have h: "e_open_table memory_engine ''ghost'' (st (fresh docs_store)) =
             Inl ''Table 'ghost' was not found''"
    by (simp add: mem_simps)
  from not_found_before_validation [OF h, of "\<lparr>ad_data = []\<rparr>" "\<lparr>dr_filter = ''''\<rparr>"] h
  show ?thesis by (simp add: fresh_def quoted_def)
qed

end
